theory Spec2Isabelle
  imports Main "HOL-Library.Sublist"
begin

section \<open>The decision types and the pull-request context\<close>

text \<open>
  The embedding follows \<^verbatim>\<open>src/agent.py\<close>. Python's \<^verbatim>\<open>str\<close> is modelled as
  \<^typ>\<open>string\<close>, one \<^typ>\<open>char\<close> per character; a leading underscore of a Python
  name is dropped, since an Isabelle name cannot start with one.
\<close>

datatype RiskLevel = LOW | MEDIUM | HIGH | CRITICAL

datatype MergeDecision = AUTO_MERGE | REQUIRE_APPROVAL | DO_NOT_MERGE

text \<open>The \<^verbatim>\<open>.value\<close> of each enum member.\<close>

fun RiskLevel_value :: "RiskLevel \<Rightarrow> string" where
  "RiskLevel_value LOW = ''low''"
| "RiskLevel_value MEDIUM = ''medium''"
| "RiskLevel_value HIGH = ''high''"
| "RiskLevel_value CRITICAL = ''critical''"

fun MergeDecision_value :: "MergeDecision \<Rightarrow> string" where
  "MergeDecision_value AUTO_MERGE = ''auto_merge''"
| "MergeDecision_value REQUIRE_APPROVAL = ''require_approval''"
| "MergeDecision_value DO_NOT_MERGE = ''do_not_merge''"

record PRContext =
  number :: int
  title :: string
  body :: string
  labels :: "string list"
  author :: string
  is_draft :: bool
  mergeable :: bool
  mergeable_state :: string
  ci_status :: string
  ci_conclusion :: "string option"
  update_type :: string
  old_version :: string
  new_version :: string
  dependency_name :: string
  is_security_update :: bool
  target_branch :: string
  files_changed :: "string list"

section \<open>The fallback decision\<close>

text \<open>
  \<^verbatim>\<open>_fallback_decision(context, llm_response)\<close>: the reasoning string is a fixed
  sentence, a blank line and the first 500 characters of the response; the decision and the
  risk come from the \<^verbatim>\<open>if/elif\<close> chain, in the source's order.
\<close>

definition fallback_reasoning :: "string \<Rightarrow> string" where
  "fallback_reasoning llm_response =
     ''Fallback decision used due to parsing error.'' @ [CHR 0x0A, CHR 0x0A] @ take 500 llm_response"

definition fallback_decision :: "PRContext \<Rightarrow> string \<Rightarrow> MergeDecision \<times> RiskLevel \<times> string" where
  "fallback_decision context llm_response =
     (let reasoning = fallback_reasoning llm_response in
      if ci_status context = ''failure'' \<or> \<not> mergeable context then
        (DO_NOT_MERGE, CRITICAL, reasoning)
      else if update_type context = ''major'' then
        (REQUIRE_APPROVAL, HIGH, reasoning)
      else if is_security_update context \<or> update_type context \<in> set [''minor'', ''patch''] then
        (AUTO_MERGE, LOW, reasoning)
      else
        (REQUIRE_APPROVAL, MEDIUM, reasoning))"

definition sample_pr_context :: PRContext where
  "sample_pr_context =
     \<lparr> number = 123,
       title = ''Bump axios from 1.6.0 to 1.6.1'',
       body = ''Bumps [axios](https://github.com/axios/axios) from 1.6.0 to 1.6.1.'',
       labels = [''dependencies'', ''javascript''],
       author = ''dependabot[bot]'',
       is_draft = False,
       mergeable = True,
       mergeable_state = ''clean'',
       ci_status = ''success'',
       ci_conclusion = Some ''success'',
       update_type = ''patch'',
       old_version = ''1.6.0'',
       new_version = ''1.6.1'',
       dependency_name = ''axios'',
       is_security_update = False,
       target_branch = ''main'',
       files_changed = [''package.json'', ''package-lock.json''] \<rparr>"

section \<open>Strings\<close>


definition upper_letters :: string where
  "upper_letters = ''ABCDEFGHIJKLMNOPQRSTUVWXYZ''"

definition lower_letters :: string where
  "lower_letters = ''abcdefghijklmnopqrstuvwxyz''"

definition lower_char :: "char \<Rightarrow> char" where
  "lower_char c = (case map_of (zip upper_letters lower_letters) c of Some d \<Rightarrow> d | None \<Rightarrow> c)"

definition lower :: "string \<Rightarrow> string" where
  "lower s = map lower_char s"





text \<open>Python's \<^verbatim>\<open>sub in s\<close> on strings: \<^verbatim>\<open>sub\<close> occurs in \<^verbatim>\<open>s\<close> at some position.\<close>

fun str_in :: "string \<Rightarrow> string \<Rightarrow> bool" where
  "str_in sub [] = (sub = [])"
| "str_in sub (c # cs) = (prefix sub (c # cs) \<or> str_in sub cs)"


section \<open>The three searches of the title\<close>









section \<open>The dependency classifier\<close>



section \<open>The security detector\<close>

record label =
  name :: string

definition is_security_update_of :: "label list \<Rightarrow> string \<Rightarrow> bool" where
  "is_security_update_of lbls bdy =
     (let label_names = map (\<lambda>l. lower (name l)) lbls; body_lower = lower bdy in
      list_ex (\<lambda>l. str_in ''security'' l) label_names
      \<or> str_in ''security'' body_lower
      \<or> str_in ''cve'' body_lower
      \<or> str_in ''vulnerability'' body_lower)"

section \<open>The CI aggregator\<close>

text \<open>
  A check run as the host's API returns it: a status and a conclusion that is null until
  the run has one. \<^verbatim>\<open>_get_ci_status\<close> receives the outcome of the request: \<open>Inl\<close> the
  text of the exception it raised, or \<open>Inr\<close> the \<^verbatim>\<open>check_runs\<close> entry of the answer,
  \<open>None\<close> when the key is absent (\<^verbatim>\<open>.get("check_runs", [])\<close>).
\<close>

record check_run =
  status :: string
  conclusion :: "string option"

text \<open>
  \<^verbatim>\<open>[run["conclusion"] for run in check_runs if run.get("conclusion")]\<close>: a null and an
  empty conclusion are both dropped.
\<close>

definition conclusions_of :: "check_run list \<Rightarrow> string list" where
  "conclusions_of check_runs =
     List.map_filter
       (\<lambda>run. case conclusion run of None \<Rightarrow> None | Some c \<Rightarrow> if c = [] then None else Some c)
       check_runs"

definition get_ci_status :: "string + check_run list option \<Rightarrow> string \<times> string option" where
  "get_ci_status fetched =
     (case fetched of
        Inl e \<Rightarrow> (''unknown'', None)
      | Inr entry \<Rightarrow>
          (let check_runs = (case entry of None \<Rightarrow> [] | Some runs \<Rightarrow> runs) in
           if check_runs = [] then (''pending'', None)
           else
             (let statuses = map status check_runs;
                  conclusions = conclusions_of check_runs in
              if list_ex (\<lambda>s. s \<noteq> ''completed'') statuses then (''pending'', None)
              else if list_all (\<lambda>c. c = ''success'') conclusions then (''success'', Some ''success'')
              else if list_ex (\<lambda>c. c \<in> set [''failure'', ''cancelled'', ''timed_out'']) conclusions
              then (''failure'', Some ''failure'')
              else (''pending'', None))))"

section \<open>JSON values and Python exceptions\<close>

text \<open>
  The values \<^verbatim>\<open>json.loads\<close> builds and the service sends as tool arguments. An object
  is an association list read with \<^const>\<open>map_of\<close>. Floating-point numbers are left out:
  in every branch below they behave as \<open>JInt\<close> does (not a string, not an object).
\<close>

datatype json =
    JNull
  | JBool bool
  | JInt int
  | JStr string
  | JArr "json list"
  | JObj "(string \<times> json) list"

datatype py_error =
    KeyError string
  | TypeError
  | JSONDecodeError
  | NameError
  | APIError string

text \<open>\<^verbatim>\<open>d[key]\<close> on a dictionary: a missing key raises \<^verbatim>\<open>KeyError\<close>.\<close>

definition dict_getitem :: "(string \<times> json) list \<Rightarrow> string \<Rightarrow> py_error + json" where
  "dict_getitem d k = (case map_of d k of None \<Rightarrow> Inl (KeyError k) | Some v \<Rightarrow> Inr v)"

text \<open>
  \<^verbatim>\<open>v[key]\<close> with a string key on any JSON value: only an object can answer; a list, a
  string, a number, a boolean and null raise \<^verbatim>\<open>TypeError\<close>.
\<close>

fun json_getitem :: "json \<Rightarrow> string \<Rightarrow> py_error + json" where
  "json_getitem (JObj d) k = dict_getitem d k"
| "json_getitem v k = Inl TypeError"

text \<open>
  \<^verbatim>\<open>MergeDecision[v]\<close> and \<^verbatim>\<open>RiskLevel[v]\<close>: lookup by member name. A string that is
  no member name, and any other hashable value, raises \<^verbatim>\<open>KeyError\<close>; a list or an
  object is unhashable and raises \<^verbatim>\<open>TypeError\<close>.
\<close>

definition MergeDecision_names :: "(string \<times> MergeDecision) list" where
  "MergeDecision_names =
     [(''AUTO_MERGE'', AUTO_MERGE), (''REQUIRE_APPROVAL'', REQUIRE_APPROVAL),
      (''DO_NOT_MERGE'', DO_NOT_MERGE)]"

definition RiskLevel_names :: "(string \<times> RiskLevel) list" where
  "RiskLevel_names =
     [(''LOW'', LOW), (''MEDIUM'', MEDIUM), (''HIGH'', HIGH), (''CRITICAL'', CRITICAL)]"

fun enum_getitem :: "(string \<times> 'a) list \<Rightarrow> json \<Rightarrow> py_error + 'a" where
  "enum_getitem members (JStr s) =
     (case map_of members s of None \<Rightarrow> Inl (KeyError s) | Some m \<Rightarrow> Inr m)"
| "enum_getitem members (JArr xs) = Inl TypeError"
| "enum_getitem members (JObj d) = Inl TypeError"
| "enum_getitem members v = Inl (KeyError [])"

section \<open>The tools\<close>

text \<open>
  Two things come from outside the repository and are parameters of the model:
  \<open>fmt\<close>, the text an f-string puts for a value that is not a string (a string is put as
  it is), and \<open>fetch\<close>, the request \<^verbatim>\<open>_analyze_diff\<close> makes: \<open>Inl\<close> the text of the
  exception it raised, \<open>Inr\<close> the \<^verbatim>\<open>response.text\<close>.
\<close>

definition py_format :: "(json \<Rightarrow> string) \<Rightarrow> json \<Rightarrow> string" where
  "py_format fmt v = (case v of JStr s \<Rightarrow> s | _ \<Rightarrow> fmt v)"

definition fetch_release_notes :: "(json \<Rightarrow> string) \<Rightarrow> json \<Rightarrow> json \<Rightarrow> string" where
  "fetch_release_notes fmt dependency version =
     ''Release notes for '' @ py_format fmt dependency @ '' '' @ py_format fmt version
     @ '' would be fetched from package registry (npm, PyPI, etc.) in production implementation.''"

definition check_cve_database :: "(json \<Rightarrow> string) \<Rightarrow> json \<Rightarrow> json \<Rightarrow> string" where
  "check_cve_database fmt dependency version =
     ''CVE check for '' @ py_format fmt dependency @ '' '' @ py_format fmt version
     @ '' would query vulnerability databases (GitHub Security, Snyk, etc.) in production implementation.''"

definition analyze_diff :: "(json \<Rightarrow> string + string) \<Rightarrow> json \<Rightarrow> string" where
  "analyze_diff fetch pr_number =
     (case fetch pr_number of
        Inr diff \<Rightarrow>
          if length diff > 2000 then take 2000 diff @ [CHR 0x0A] @ ''... (truncated for brevity)''
          else diff
      | Inl e \<Rightarrow> ''Could not fetch diff: '' @ e)"

text \<open>
  \<^verbatim>\<open>_execute_tool(tool_name, tool_input)\<close>. The arguments are read with
  \<^verbatim>\<open>tool_input[...]\<close> outside any \<^verbatim>\<open>try\<close>, left to right, so a missing key is a
  \<^verbatim>\<open>KeyError\<close> of \<^verbatim>\<open>_execute_tool\<close> itself.
\<close>

definition execute_tool ::
  "(json \<Rightarrow> string) \<Rightarrow> (json \<Rightarrow> string + string) \<Rightarrow> string \<Rightarrow> (string \<times> json) list \<Rightarrow> py_error + string" where
  "execute_tool fmt fetch tool_name tool_input =
     (if tool_name = ''fetch_release_notes'' then
        (case dict_getitem tool_input ''dependency'' of
           Inl e \<Rightarrow> Inl e
         | Inr dependency \<Rightarrow>
             (case dict_getitem tool_input ''version'' of
                Inl e \<Rightarrow> Inl e
              | Inr version \<Rightarrow> Inr (fetch_release_notes fmt dependency version)))
      else if tool_name = ''check_cve_database'' then
        (case dict_getitem tool_input ''dependency'' of
           Inl e \<Rightarrow> Inl e
         | Inr dependency \<Rightarrow>
             (case dict_getitem tool_input ''version'' of
                Inl e \<Rightarrow> Inl e
              | Inr version \<Rightarrow> Inr (check_cve_database fmt dependency version)))
      else if tool_name = ''analyze_diff'' then
        (case dict_getitem tool_input ''pr_number'' of
           Inl e \<Rightarrow> Inl e
         | Inr pr_number \<Rightarrow> Inr (analyze_diff fetch pr_number))
      else Inr (''Unknown tool: '' @ tool_name))"

section \<open>The reasoning loop\<close>









section \<open>Verdict extraction\<close>

text \<open>
  \<^verbatim>\<open>re.search(r"\{[\s\S]*\}", final_text)\<close>: the match starts at the first opening
  brace and, the star being greedy over every character, ends at the last closing brace
  after it; there is no match when no closing brace follows an opening one.
\<close>

definition json_search :: "string \<Rightarrow> string option" where
  "json_search s =
     (let r = dropWhile (\<lambda>c. c \<noteq> CHR ''{'') s in
      if r \<noteq> [] \<and> CHR ''}'' \<in> set r
      then Some (rev (dropWhile (\<lambda>c. c \<noteq> CHR ''}'') (rev r)))
      else None)"

text \<open>
  The body of the \<^verbatim>\<open>try\<close> once the match is found. \<open>loads\<close> is \<^verbatim>\<open>json.loads\<close>, a
  parameter: \<open>Inl\<close> when it raises. The reasoning is returned as the JSON value the
  object holds, whatever its type.
\<close>

definition parse_verdict ::
  "(string \<Rightarrow> py_error + json) \<Rightarrow> string \<Rightarrow> py_error + MergeDecision \<times> RiskLevel \<times> json" where
  "parse_verdict loads matched =
     (case loads matched of
        Inl e \<Rightarrow> Inl e
      | Inr decision_data \<Rightarrow>
          (case json_getitem decision_data ''decision'' of
             Inl e \<Rightarrow> Inl e
           | Inr dv \<Rightarrow>
               (case enum_getitem MergeDecision_names dv of
                  Inl e \<Rightarrow> Inl e
                | Inr decision \<Rightarrow>
                    (case json_getitem decision_data ''risk_level'' of
                       Inl e \<Rightarrow> Inl e
                     | Inr rv \<Rightarrow>
                         (case enum_getitem RiskLevel_names rv of
                            Inl e \<Rightarrow> Inl e
                          | Inr risk \<Rightarrow>
                              (case json_getitem decision_data ''reasoning'' of
                                 Inl e \<Rightarrow> Inl e
                               | Inr reasoning \<Rightarrow> Inr (decision, risk, reasoning)))))))"

text \<open>The fallback verdict with its reasoning as a JSON string, the type of the other path.\<close>

definition fallback_verdict :: "PRContext \<Rightarrow> string \<Rightarrow> MergeDecision \<times> RiskLevel \<times> json" where
  "fallback_verdict context final_text =
     (case fallback_decision context final_text of (d, r, reasoning) \<Rightarrow> (d, r, JStr reasoning))"

text \<open>
  The \<^verbatim>\<open>try/except\<close> at the end of \<^verbatim>\<open>decide_with_llm\<close>: no match, or any exception
  of the body, gives the fallback decision.
\<close>

definition verdict_of_text ::
  "(string \<Rightarrow> py_error + json) \<Rightarrow> PRContext \<Rightarrow> string \<Rightarrow> MergeDecision \<times> RiskLevel \<times> json" where
  "verdict_of_text loads context final_text =
     (case json_search final_text of
        None \<Rightarrow> fallback_verdict context final_text
      | Some matched \<Rightarrow>
          (case parse_verdict loads matched of
             Inl e \<Rightarrow> fallback_verdict context final_text
           | Inr v \<Rightarrow> v))"


text \<open>
  The first balanced curly-brace object of a text, in the words of the specification: from
  an opening brace to the closing brace that brings the nesting depth back to zero, at the
  leftmost opening brace from which such a closing brace exists. This definition is not
  taken from the source; it is what the source's search is compared with.
\<close>

fun balanced_prefix :: "nat \<Rightarrow> string \<Rightarrow> string option" where
  "balanced_prefix d [] = None"
| "balanced_prefix d (c # cs) =
     (if c = CHR ''{'' then map_option ((#) c) (balanced_prefix (Suc d) cs)
      else if c = CHR ''}'' then
        (case d of
           0 \<Rightarrow> None
         | Suc 0 \<Rightarrow> Some [c]
         | Suc (Suc d') \<Rightarrow> map_option ((#) c) (balanced_prefix (Suc d') cs))
      else map_option ((#) c) (balanced_prefix d cs))"

fun spec_first_balanced_object :: "string \<Rightarrow> string option" where
  "spec_first_balanced_object [] = None"
| "spec_first_balanced_object (c # cs) =
     (if c = CHR ''{'' then
        (case balanced_prefix 0 (c # cs) of
           Some obj \<Rightarrow> Some obj
         | None \<Rightarrow> spec_first_balanced_object cs)
      else spec_first_balanced_object cs)"

section \<open>Stubs of the collaborators\<close>






text \<open>
  A stand-in for \<^verbatim>\<open>json.loads\<close> that knows one object: it parses the text of that
  object and rejects every other text. On the texts the examples pass to it, it answers as
  \<^verbatim>\<open>json.loads\<close> does.
\<close>

definition verdict_json_text :: string where
  \<open>verdict_json_text = ''{"decision": "AUTO_MERGE", "risk_level": "LOW", "reasoning": "ok"}''\<close>

definition stub_loads :: "string \<Rightarrow> py_error + json" where
  "stub_loads s =
     (if s = verdict_json_text
      then Inr (JObj [(''decision'', JStr ''AUTO_MERGE''), (''risk_level'', JStr ''LOW''),
                      (''reasoning'', JStr ''ok'')])
      else Inl JSONDecodeError)"

section \<open>Properties of the fallback decision\<close>

text \<open>
  C1. For every context and every response text, \<open>fallback_decision\<close> returns one verdict,
  by the fixed priority order: a CI status \<open>failure\<close> or a pull request that is not
  mergeable gives \<open>(DO_NOT_MERGE, CRITICAL)\<close> whatever the other fields are; otherwise an
  update type \<open>major\<close> gives \<open>(REQUIRE_APPROVAL, HIGH)\<close>; otherwise a security update or
  an update type \<open>minor\<close> or \<open>patch\<close> gives \<open>(AUTO_MERGE, LOW)\<close>; otherwise the result is
  \<open>(REQUIRE_APPROVAL, MEDIUM)\<close>. The four cases cover every context, and the function has
  no branch that raises.
\<close>

theorem fallback_decision_priority:
  "(ci_status context = ''failure'' \<or> \<not> mergeable context \<longrightarrow>
      fallback_decision context llm_response = (DO_NOT_MERGE, CRITICAL, fallback_reasoning llm_response))
   \<and> (ci_status context \<noteq> ''failure'' \<and> mergeable context \<and> update_type context = ''major'' \<longrightarrow>
      fallback_decision context llm_response = (REQUIRE_APPROVAL, HIGH, fallback_reasoning llm_response))
   \<and> (ci_status context \<noteq> ''failure'' \<and> mergeable context \<and> update_type context \<noteq> ''major''
        \<and> (is_security_update context \<or> update_type context = ''minor'' \<or> update_type context = ''patch'') \<longrightarrow>
      fallback_decision context llm_response = (AUTO_MERGE, LOW, fallback_reasoning llm_response))
   \<and> (ci_status context \<noteq> ''failure'' \<and> mergeable context \<and> update_type context \<noteq> ''major''
        \<and> \<not> is_security_update context \<and> update_type context \<noteq> ''minor'' \<and> update_type context \<noteq> ''patch'' \<longrightarrow>
      fallback_decision context llm_response = (REQUIRE_APPROVAL, MEDIUM, fallback_reasoning llm_response))"
  by (simp add: fallback_decision_def)

theorem fallback_decision_priority_witness:
  "fallback_decision (sample_pr_context\<lparr>ci_status := ''failure''\<rparr>) ''error''
     = (DO_NOT_MERGE, CRITICAL, fallback_reasoning ''error'')
   \<and> fallback_decision (sample_pr_context\<lparr>mergeable := False, is_security_update := True\<rparr>) ''error''
     = (DO_NOT_MERGE, CRITICAL, fallback_reasoning ''error'')
   \<and> fallback_decision (sample_pr_context\<lparr>update_type := ''major''\<rparr>) ''error''
     = (REQUIRE_APPROVAL, HIGH, fallback_reasoning ''error'')
   \<and> fallback_decision sample_pr_context ''error''
     = (AUTO_MERGE, LOW, fallback_reasoning ''error'')
   \<and> fallback_decision (sample_pr_context\<lparr>update_type := ''unknown''\<rparr>) ''error''
     = (REQUIRE_APPROVAL, MEDIUM, fallback_reasoning ''error'')"
  using fallback_decision_priority [of "sample_pr_context\<lparr>ci_status := ''failure''\<rparr>" "''error''"]
    fallback_decision_priority [of "sample_pr_context\<lparr>mergeable := False, is_security_update := True\<rparr>" "''error''"]
    fallback_decision_priority [of "sample_pr_context\<lparr>update_type := ''major''\<rparr>" "''error''"]
    fallback_decision_priority [of sample_pr_context "''error''"]
    fallback_decision_priority [of "sample_pr_context\<lparr>update_type := ''unknown''\<rparr>" "''error''"]
  by (simp add: sample_pr_context_def)

text \<open>
  C5, as the specification states it: a context whose update type is \<open>unknown\<close> is never
  auto-merged by the fallback. The third branch of the source tests the security flag
  before the update type, so this fails for a security update whose CI has not failed and
  which is mergeable: the test suite's sample context, with the update type \<open>unknown\<close>
  and the security flag set, is auto-merged.
\<close>

theorem fallback_unknown_security_counterexample:
  "update_type (sample_pr_context\<lparr>update_type := ''unknown'', is_security_update := True\<rparr>) = ''unknown''
   \<and> fst (fallback_decision (sample_pr_context\<lparr>update_type := ''unknown'', is_security_update := True\<rparr>) ''error'')
       = AUTO_MERGE"
  by (simp add: fallback_decision_def sample_pr_context_def)

text \<open>
  C5, amended: for a context whose update type is \<open>unknown\<close>, the fallback returns
  \<open>AUTO_MERGE\<close> exactly when the security flag is set, the CI status is not \<open>failure\<close>
  and the pull request is mergeable; in particular an update of unknown type that is not a
  security update is never auto-merged.
\<close>

theorem fallback_unknown_auto_merge_iff:
  "update_type context = ''unknown'' \<Longrightarrow>
     (fst (fallback_decision context llm_response) = AUTO_MERGE)
       = (is_security_update context \<and> ci_status context \<noteq> ''failure'' \<and> mergeable context)"
  by (auto simp add: fallback_decision_def Let_def)

theorem fallback_unknown_auto_merge_iff_witness:
  "update_type (sample_pr_context\<lparr>update_type := ''unknown''\<rparr>) = ''unknown''
   \<and> fst (fallback_decision (sample_pr_context\<lparr>update_type := ''unknown''\<rparr>) ''error'') \<noteq> AUTO_MERGE"
  using fallback_unknown_auto_merge_iff [of "sample_pr_context\<lparr>update_type := ''unknown''\<rparr>" "''error''"]
  by (simp add: sample_pr_context_def)

section \<open>Properties of the CI aggregator\<close>

lemma set_conclusions_of:
  "set (conclusions_of runs) = {c. c \<noteq> [] \<and> (\<exists>r\<in>set runs. conclusion r = Some c)}"
  by (induction runs) (auto simp add: conclusions_of_def split: option.splits)

lemma conclusions_all_success:
  "list_all (\<lambda>c. c = ''success'') (conclusions_of runs)
     = (\<forall>r\<in>set runs. conclusion r \<in> {None, Some [], Some ''success''})"
  unfolding list_all_iff set_conclusions_of
  by (auto; metis option.exhaust)

lemma conclusions_some_failure:
  "list_ex (\<lambda>c. c = ''failure'' \<or> c = ''cancelled'' \<or> c = ''timed_out'') (conclusions_of runs)
     = (\<exists>r\<in>set runs. conclusion r \<in> {Some ''failure'', Some ''cancelled'', Some ''timed_out''})"
  unfolding list_ex_iff set_conclusions_of by auto

lemma statuses_some_incomplete:
  "list_ex (\<lambda>s. s \<noteq> ''completed'') (map status runs) = (\<exists>r\<in>set runs. status r \<noteq> ''completed'')"
  unfolding list_ex_iff by auto

text \<open>
  C6, as the specification states it, ends: a run where every check completed but some
  check's conclusion is absent (null) must not report success. The source collects only the
  conclusions that are present before it asks whether all of them are \<open>success\<close>, so two
  completed checks, one concluded \<open>success\<close> and one with a null conclusion, report
  \<open>(success, success)\<close>.
\<close>

theorem get_ci_status_null_conclusion_counterexample:
  "get_ci_status
     (Inr (Some [\<lparr>status = ''completed'', conclusion = Some ''success''\<rparr>,
                 \<lparr>status = ''completed'', conclusion = None\<rparr>]))
   = (''success'', Some ''success'')"
  by (simp add: get_ci_status_def conclusions_of_def)

text \<open>
  C6, amended: a failed fetch gives \<open>(unknown, null)\<close>; an absent or empty list of check
  runs gives \<open>(pending, null)\<close>; a list with a check that has not completed gives
  \<open>(pending, null)\<close>; when every check has completed, the result is \<open>(success, success)\<close>
  if every conclusion that is present (neither null nor empty) is \<open>success\<close>, which
  includes the lists where some or all conclusions are absent; otherwise it is
  \<open>(failure, failure)\<close> if some check concluded \<open>failure\<close>, \<open>cancelled\<close> or
  \<open>timed_out\<close>, and \<open>(pending, null)\<close> if none did.
\<close>

theorem get_ci_status_cases:
  "get_ci_status (Inl e) = (''unknown'', None)
   \<and> get_ci_status (Inr None) = (''pending'', None)
   \<and> get_ci_status (Inr (Some [])) = (''pending'', None)
   \<and> (runs \<noteq> [] \<and> (\<exists>r\<in>set runs. status r \<noteq> ''completed'') \<longrightarrow>
        get_ci_status (Inr (Some runs)) = (''pending'', None))
   \<and> (runs \<noteq> [] \<and> (\<forall>r\<in>set runs. status r = ''completed'')
        \<and> (\<forall>r\<in>set runs. conclusion r \<in> {None, Some [], Some ''success''}) \<longrightarrow>
        get_ci_status (Inr (Some runs)) = (''success'', Some ''success''))
   \<and> (runs \<noteq> [] \<and> (\<forall>r\<in>set runs. status r = ''completed'')
        \<and> \<not> (\<forall>r\<in>set runs. conclusion r \<in> {None, Some [], Some ''success''})
        \<and> (\<exists>r\<in>set runs. conclusion r \<in> {Some ''failure'', Some ''cancelled'', Some ''timed_out''}) \<longrightarrow>
        get_ci_status (Inr (Some runs)) = (''failure'', Some ''failure''))
   \<and> (runs \<noteq> [] \<and> (\<forall>r\<in>set runs. status r = ''completed'')
        \<and> \<not> (\<forall>r\<in>set runs. conclusion r \<in> {None, Some [], Some ''success''})
        \<and> \<not> (\<exists>r\<in>set runs. conclusion r \<in> {Some ''failure'', Some ''cancelled'', Some ''timed_out''}) \<longrightarrow>
        get_ci_status (Inr (Some runs)) = (''pending'', None))"
  using conclusions_all_success [of runs] conclusions_some_failure [of runs]
    statuses_some_incomplete [of runs]
  by (simp add: get_ci_status_def Let_def)

theorem get_ci_status_cases_witness:
  "get_ci_status (Inl ''connection refused'') = (''unknown'', None)
   \<and> get_ci_status
        (Inr (Some [\<lparr>status = ''completed'', conclusion = Some ''success''\<rparr>,
                    \<lparr>status = ''completed'', conclusion = Some ''success''\<rparr>]))
      = (''success'', Some ''success'')
   \<and> get_ci_status
        (Inr (Some [\<lparr>status = ''completed'', conclusion = Some ''success''\<rparr>,
                    \<lparr>status = ''completed'', conclusion = Some ''failure''\<rparr>]))
      = (''failure'', Some ''failure'')
   \<and> get_ci_status
        (Inr (Some [\<lparr>status = ''in_progress'', conclusion = None\<rparr>,
                    \<lparr>status = ''completed'', conclusion = Some ''success''\<rparr>]))
      = (''pending'', None)
   \<and> get_ci_status
        (Inr (Some [\<lparr>status = ''completed'', conclusion = Some ''success''\<rparr>,
                    \<lparr>status = ''completed'', conclusion = Some ''skipped''\<rparr>]))
      = (''pending'', None)"
  using get_ci_status_cases [of "''connection refused''"
      "[\<lparr>status = ''completed'', conclusion = Some ''success''\<rparr>,
        \<lparr>status = ''completed'', conclusion = Some ''success''\<rparr>]"]
    get_ci_status_cases [of "''connection refused''"
      "[\<lparr>status = ''completed'', conclusion = Some ''success''\<rparr>,
        \<lparr>status = ''completed'', conclusion = Some ''failure''\<rparr>]"]
    get_ci_status_cases [of "''connection refused''"
      "[\<lparr>status = ''in_progress'', conclusion = None\<rparr>,
        \<lparr>status = ''completed'', conclusion = Some ''success''\<rparr>]"]
    get_ci_status_cases [of "''connection refused''"
      "[\<lparr>status = ''completed'', conclusion = Some ''success''\<rparr>,
        \<lparr>status = ''completed'', conclusion = Some ''skipped''\<rparr>]"]
  by simp

section \<open>Properties of the security detector\<close>

lemma str_in_sublist: "str_in sub s = sublist sub s"
  by (induction s) (simp_all add: sublist_Cons_right)

lemma str_in_iff: "str_in sub s = (\<exists>pre post. s = pre @ sub @ post)"
  by (simp add: str_in_sublist sublist_def)

lemma security_label_example: "is_security_update_of [\<lparr>name = ''security''\<rparr>] ''''"
  by code_simp

lemma security_cve_example: "is_security_update_of [] ''This update fixes CVE-2024-1234''"
  by code_simp

lemma security_vulnerability_example:
  "is_security_update_of [] ''This release addresses a critical vulnerability''"
  by code_simp

lemma security_none_example:
  "\<not> is_security_update_of [\<lparr>name = ''dependencies''\<rparr>] ''Regular dependency update''"
  by code_simp

text \<open>
  C8. For every list of labels and every body, the security detector returns true if and
  only if the lower-cased name of some label contains \<open>security\<close>, or the lower-cased body
  contains \<open>security\<close>, \<open>cve\<close> or \<open>vulnerability\<close>, where containing means occurring
  at some position. It is a function of its two arguments alone. The label \<open>security\<close>,
  a body with \<open>CVE-2024-1234\<close> and a body with \<open>critical vulnerability\<close> give true; the
  label \<open>dependencies\<close> with the body \<open>Regular dependency update\<close> gives false.
\<close>

theorem is_security_update_iff:
  "(is_security_update_of lbls bdy =
      ((\<exists>l\<in>set lbls. \<exists>pre post. lower (name l) = pre @ ''security'' @ post)
       \<or> (\<exists>pre post. lower bdy = pre @ ''security'' @ post)
       \<or> (\<exists>pre post. lower bdy = pre @ ''cve'' @ post)
       \<or> (\<exists>pre post. lower bdy = pre @ ''vulnerability'' @ post)))
   \<and> is_security_update_of [\<lparr>name = ''security''\<rparr>] ''''
   \<and> is_security_update_of [] ''This update fixes CVE-2024-1234''
   \<and> is_security_update_of [] ''This release addresses a critical vulnerability''
   \<and> \<not> is_security_update_of [\<lparr>name = ''dependencies''\<rparr>] ''Regular dependency update''"
  using security_label_example security_cve_example security_vulnerability_example
    security_none_example
  by (simp add: is_security_update_of_def Let_def list_ex_iff str_in_iff)

theorem is_security_update_iff_witness:
  "lower ''Fixes CVE-2024-1234'' = ''fixes '' @ ''cve'' @ ''-2024-1234''
   \<and> is_security_update_of [\<lparr>name = ''dependencies''\<rparr>] ''Fixes CVE-2024-1234''"
proof -
  have low: "lower ''Fixes CVE-2024-1234'' = ''fixes '' @ ''cve'' @ ''-2024-1234''"
    by code_simp
  then have "\<exists>pre post. lower ''Fixes CVE-2024-1234'' = pre @ ''cve'' @ post"
    by blast
  then have "is_security_update_of [\<lparr>name = ''dependencies''\<rparr>] ''Fixes CVE-2024-1234''"
    using is_security_update_iff [of "[\<lparr>name = ''dependencies''\<rparr>]" "''Fixes CVE-2024-1234''"]
    by blast
  with low show ?thesis by blast
qed

section \<open>Properties of the dependency classifier\<close>


















section \<open>Titles of the Renovate form\<close>













section \<open>Properties of tool execution\<close>

text \<open>
  C9, as the specification states it: for every tool name and argument set the service may
  request, tool execution returns a string and lets no exception escape. The source reads
  the arguments with \<^verbatim>\<open>tool_input["dependency"]\<close> outside any \<^verbatim>\<open>try\<close>, so a request
  for the release notes without arguments raises \<^verbatim>\<open>KeyError\<close>.
\<close>

theorem execute_tool_missing_argument_counterexample:
  "execute_tool (\<lambda>v. ''?'') (\<lambda>n. Inl ''timeout'') ''fetch_release_notes'' []
     = Inl (KeyError ''dependency'')"
  by (simp add: execute_tool_def dict_getitem_def)

text \<open>
  C9, amended: for every tool name and every argument set, and whatever the diff request
  does, tool execution returns a string exactly when the argument set holds the arguments
  the tool's declared schema requires: \<open>dependency\<close> and \<open>version\<close> for the release notes
  and the CVE check, \<open>pr_number\<close> for the diff, nothing for any other name. A failure of
  the diff request becomes the text \<open>Could not fetch diff: \<close> followed by the error, and an
  unrecognized tool name gives \<open>Unknown tool: \<close> followed by the name.
\<close>

theorem execute_tool_returns_string_iff:
  "((\<exists>s. execute_tool fmt fetch tool_name tool_input = Inr s) =
      ((tool_name = ''fetch_release_notes'' \<or> tool_name = ''check_cve_database'' \<longrightarrow>
          ''dependency'' \<in> dom (map_of tool_input) \<and> ''version'' \<in> dom (map_of tool_input))
       \<and> (tool_name = ''analyze_diff'' \<longrightarrow> ''pr_number'' \<in> dom (map_of tool_input))))
   \<and> (fetch n = Inl e \<longrightarrow> analyze_diff fetch n = ''Could not fetch diff: '' @ e)
   \<and> (map_of tool_input ''pr_number'' = Some n \<and> fetch n = Inl e \<longrightarrow>
        execute_tool fmt fetch ''analyze_diff'' tool_input = Inr (''Could not fetch diff: '' @ e))
   \<and> (tool_name \<noteq> ''fetch_release_notes'' \<and> tool_name \<noteq> ''check_cve_database''
        \<and> tool_name \<noteq> ''analyze_diff'' \<longrightarrow>
        execute_tool fmt fetch tool_name tool_input = Inr (''Unknown tool: '' @ tool_name))"
proof -
  have "(\<exists>s. execute_tool fmt fetch tool_name tool_input = Inr s) =
      ((tool_name = ''fetch_release_notes'' \<or> tool_name = ''check_cve_database'' \<longrightarrow>
          ''dependency'' \<in> dom (map_of tool_input) \<and> ''version'' \<in> dom (map_of tool_input))
       \<and> (tool_name = ''analyze_diff'' \<longrightarrow> ''pr_number'' \<in> dom (map_of tool_input)))"
    by (auto simp add: execute_tool_def dict_getitem_def dom_def split: option.splits)
  moreover have "fetch n = Inl e \<longrightarrow> analyze_diff fetch n = ''Could not fetch diff: '' @ e"
    by (simp add: analyze_diff_def)
  moreover have "map_of tool_input ''pr_number'' = Some n \<and> fetch n = Inl e \<longrightarrow>
        execute_tool fmt fetch ''analyze_diff'' tool_input = Inr (''Could not fetch diff: '' @ e)"
    by (simp add: execute_tool_def dict_getitem_def analyze_diff_def)
  moreover have "tool_name \<noteq> ''fetch_release_notes'' \<and> tool_name \<noteq> ''check_cve_database''
        \<and> tool_name \<noteq> ''analyze_diff'' \<longrightarrow>
        execute_tool fmt fetch tool_name tool_input = Inr (''Unknown tool: '' @ tool_name)"
    by (simp add: execute_tool_def)
  ultimately show ?thesis by blast
qed

theorem execute_tool_returns_string_iff_witness:
  "execute_tool (\<lambda>v. ''?'') (\<lambda>n. Inl ''timeout'') ''analyze_diff'' [(''pr_number'', JInt 123)]
     = Inr (''Could not fetch diff: '' @ ''timeout'')
   \<and> execute_tool (\<lambda>v. ''?'') (\<lambda>n. Inl ''timeout'') ''run_shell'' [] = Inr (''Unknown tool: '' @ ''run_shell'')
   \<and> (\<exists>s. execute_tool (\<lambda>v. ''?'') (\<lambda>n. Inl ''timeout'') ''check_cve_database''
            [(''dependency'', JStr ''axios''), (''version'', JStr ''1.6.1'')] = Inr s)"
proof -
  note t = execute_tool_returns_string_iff
      [of "\<lambda>v. ''?''" "\<lambda>n. Inl ''timeout''" _ _ "JInt 123" "''timeout''"]
  have a: "execute_tool (\<lambda>v. ''?'') (\<lambda>n. Inl ''timeout'') ''analyze_diff'' [(''pr_number'', JInt 123)]
     = Inr (''Could not fetch diff: '' @ ''timeout'')"
    by (rule t [of _ "[(''pr_number'', JInt 123)]", THEN conjunct2, THEN conjunct2, THEN conjunct1, THEN mp]) simp
  have b: "execute_tool (\<lambda>v. ''?'') (\<lambda>n. Inl ''timeout'') ''run_shell'' [] = Inr (''Unknown tool: '' @ ''run_shell'')"
    by (rule t [of "''run_shell''" "[]", THEN conjunct2, THEN conjunct2, THEN conjunct2, THEN mp]) simp
  have c: "\<exists>s. execute_tool (\<lambda>v. ''?'') (\<lambda>n. Inl ''timeout'') ''check_cve_database''
            [(''dependency'', JStr ''axios''), (''version'', JStr ''1.6.1'')] = Inr s"
    by (subst t [of "''check_cve_database''" "[(''dependency'', JStr ''axios''), (''version'', JStr ''1.6.1'')]",
          THEN conjunct1]) simp
  show ?thesis
    by (intro conjI) (rule a b c)+
qed

section \<open>Properties of the reasoning loop\<close>








section \<open>Properties of verdict extraction\<close>

lemma dropWhile_neq_skip: "a \<notin> set xs \<Longrightarrow> dropWhile (\<lambda>c. c \<noteq> a) (xs @ a # ys) = a # ys"
  by (induction xs) auto

lemma json_search_SomeI:
  assumes "CHR ''{'' \<notin> set pre" "CHR ''}'' \<notin> set post" "s \<noteq> []" "hd s = CHR ''{''" "last s = CHR ''}''"
  shows "json_search (pre @ s @ post) = Some s"
proof -
  from assms(3,4) obtain s' where s: "s = CHR ''{'' # s'"
    by (cases s) auto
  have r: "dropWhile (\<lambda>c. c \<noteq> CHR ''{'') (pre @ s @ post) = s @ post"
    using dropWhile_neq_skip [OF assms(1), of "s' @ post"] by (simp add: s)
  from assms(3,5) obtain s'' where s2: "rev s = CHR ''}'' # s''"
    by (cases "rev s") (auto simp add: last_rev [symmetric])
  have "dropWhile (\<lambda>c. c \<noteq> CHR ''}'') (rev post @ rev s) = rev s"
    using dropWhile_neq_skip [of "CHR ''}''" "rev post" s''] assms(2) by (simp add: s2)
  then have "rev (dropWhile (\<lambda>c. c \<noteq> CHR ''}'') (rev (s @ post))) = s"
    by simp
  moreover have "CHR ''}'' \<in> set (s @ post)"
    using assms(3,5) last_in_set [of s] by auto
  ultimately show ?thesis
    unfolding json_search_def Let_def r using assms(3) by simp
qed

lemma json_search_SomeD:
  assumes "json_search t = Some s"
  shows "\<exists>pre post. t = pre @ s @ post \<and> CHR ''{'' \<notin> set pre \<and> CHR ''}'' \<notin> set post
           \<and> s \<noteq> [] \<and> hd s = CHR ''{'' \<and> last s = CHR ''}''"
proof -
  define pre where "pre = takeWhile (\<lambda>c. c \<noteq> CHR ''{'') t"
  define r where "r = dropWhile (\<lambda>c. c \<noteq> CHR ''{'') t"
  define post where "post = rev (takeWhile (\<lambda>c. c \<noteq> CHR ''}'') (rev r))"
  from assms have rne: "r \<noteq> []" and cl: "CHR ''}'' \<in> set r"
    and s: "s = rev (dropWhile (\<lambda>c. c \<noteq> CHR ''}'') (rev r))"
    by (auto simp add: json_search_def Let_def r_def split: if_splits)
  have t: "t = pre @ r"
    by (simp add: pre_def r_def)
  have "rev r = takeWhile (\<lambda>c. c \<noteq> CHR ''}'') (rev r) @ dropWhile (\<lambda>c. c \<noteq> CHR ''}'') (rev r)"
    by simp
  then have "rev (rev r) = rev (dropWhile (\<lambda>c. c \<noteq> CHR ''}'') (rev r)) @ rev (takeWhile (\<lambda>c. c \<noteq> CHR ''}'') (rev r))"
    by (metis rev_append)
  then have rsp: "r = s @ post"
    by (simp add: s post_def)
  have p1: "CHR ''{'' \<notin> set pre"
    unfolding pre_def by (metis (mono_tags, lifting) set_takeWhileD)
  have p2: "CHR ''}'' \<notin> set post"
    unfolding post_def set_rev by (metis (mono_tags, lifting) set_takeWhileD)
  from cl have dne: "dropWhile (\<lambda>c. c \<noteq> CHR ''}'') (rev r) \<noteq> []"
    by auto
  then have sne: "s \<noteq> []"
    by (simp add: s)
  have "hd (dropWhile (\<lambda>c. c \<noteq> CHR ''}'') (rev r)) = CHR ''}''"
    using dne hd_dropWhile [of "\<lambda>c. c \<noteq> CHR ''}''" "rev r"] by simp
  then have l: "last s = CHR ''}''"
    using dne by (simp add: s last_rev)
  have "hd r = CHR ''{''"
    using rne hd_dropWhile [of "\<lambda>c. c \<noteq> CHR ''{''" t] by (simp add: r_def)
  then have h: "hd s = CHR ''{''"
    using rsp sne by simp
  from t rsp p1 p2 sne h l show ?thesis by blast
qed

lemma json_search_Some_iff:
  "(json_search t = Some s) =
     (\<exists>pre post. t = pre @ s @ post \<and> CHR ''{'' \<notin> set pre \<and> CHR ''}'' \<notin> set post
        \<and> s \<noteq> [] \<and> hd s = CHR ''{'' \<and> last s = CHR ''}'')"
  using json_search_SomeD json_search_SomeI by blast

lemma enum_getitem_Inr_iff:
  "(enum_getitem members v = Inr m) = (\<exists>n. v = JStr n \<and> map_of members n = Some m)"
  by (cases v) (auto split: option.splits)

lemma json_getitem_Inr_iff:
  "(json_getitem v k = Inr x) = (\<exists>d. v = JObj d \<and> map_of d k = Some x)"
  by (cases v) (auto simp add: dict_getitem_def split: option.splits)

lemma parse_verdict_Inr_iff:
  "(parse_verdict loads s = Inr (dec, rk, why)) =
     (\<exists>d dn rn. loads s = Inr (JObj d)
        \<and> map_of d ''decision'' = Some (JStr dn) \<and> map_of MergeDecision_names dn = Some dec
        \<and> map_of d ''risk_level'' = Some (JStr rn) \<and> map_of RiskLevel_names rn = Some rk
        \<and> map_of d ''reasoning'' = Some why)"
proof (cases "loads s")
  case (Inl e)
  then show ?thesis by (simp add: parse_verdict_def)
next
  case (Inr v)
  show ?thesis
  proof (cases "\<exists>d. v = JObj d")
    case False
    then have "json_getitem v ''decision'' = Inl TypeError"
      by (cases v) auto
    with Inr False show ?thesis by (simp add: parse_verdict_def)
  next
    case True
    then obtain d where v: "v = JObj d" by blast
    show ?thesis
      unfolding parse_verdict_def Inr v
      by (auto simp add: dict_getitem_def enum_getitem_Inr_iff split: option.splits sum.splits)
  qed
qed

lemma balanced_prefix_last:
  "balanced_prefix d s = Some p \<Longrightarrow> p \<noteq> [] \<and> last p = CHR ''}''"
proof (induction s arbitrary: d p)
  case Nil
  then show ?case by simp
next
  case (Cons c cs)
  then show ?case
    by (auto split: if_splits nat.splits)
qed

lemma spec_first_balanced_object_shape:
  "spec_first_balanced_object t = Some s \<Longrightarrow> s \<noteq> [] \<and> hd s = CHR ''{'' \<and> last s = CHR ''}''"
proof (induction t)
  case Nil
  then show ?case by simp
next
  case (Cons c cs)
  show ?case
  proof (cases "c = CHR ''{'' \<and> balanced_prefix 0 (c # cs) \<noteq> None")
    case True
    then obtain p where p: "balanced_prefix 0 (c # cs) = Some p" by blast
    with True Cons.prems have "p = s" by (simp del: balanced_prefix.simps)
    moreover from p True have "hd p = CHR ''{''" by auto
    ultimately show ?thesis using balanced_prefix_last [OF p] by simp
  next
    case False
    with Cons.prems have "spec_first_balanced_object cs = Some s"
      by (auto split: if_splits option.splits)
    then show ?thesis by (rule Cons.IH)
  qed
qed


text \<open>
  C3, as the specification states it: the search locates the first balanced curly-brace
  object, also when later brace characters follow it. The pattern of the source is greedy:
  on a verdict object followed by \<open>(see {notes})\<close> the match runs to the last closing
  brace, so the text handed to the JSON parser is not the first balanced object; with a
  parser that rejects that longer text, as \<^verbatim>\<open>json.loads\<close> does, the verdict is the
  fallback one although the first balanced object alone parses to a verdict.
\<close>

theorem json_search_greedy_counterexample:
  "json_search (verdict_json_text @ '' (see {notes})'') = Some (verdict_json_text @ '' (see {notes}'')
   \<and> spec_first_balanced_object (verdict_json_text @ '' (see {notes})'') = Some verdict_json_text
   \<and> verdict_of_text stub_loads sample_pr_context (verdict_json_text @ '' (see {notes})'')
       = fallback_verdict sample_pr_context (verdict_json_text @ '' (see {notes})'')
   \<and> verdict_of_text stub_loads sample_pr_context verdict_json_text = (AUTO_MERGE, LOW, JStr ''ok'')"
proof -
  have a: "json_search (verdict_json_text @ '' (see {notes})'') = Some (verdict_json_text @ '' (see {notes}'')"
    by code_simp
  have b: "spec_first_balanced_object (verdict_json_text @ '' (see {notes})'') = Some verdict_json_text"
    by code_simp
  have c: "verdict_of_text stub_loads sample_pr_context (verdict_json_text @ '' (see {notes})'')
       = fallback_verdict sample_pr_context (verdict_json_text @ '' (see {notes})'')"
    by (simp add: verdict_of_text_def a parse_verdict_def stub_loads_def)
  have "json_search verdict_json_text = Some verdict_json_text"
    by code_simp
  then have d: "verdict_of_text stub_loads sample_pr_context verdict_json_text = (AUTO_MERGE, LOW, JStr ''ok'')"
    by (simp add: verdict_of_text_def parse_verdict_def stub_loads_def dict_getitem_def
        MergeDecision_names_def RiskLevel_names_def)
  show ?thesis
    by (intro conjI) (rule a b c d)+
qed

text \<open>
  C3, amended: for every final-response text, the search returns the span from the first
  opening brace of the text to the last closing brace after it, and there is a match
  exactly when such a span exists; that span is parsed, and when it parses to an object
  whose \<open>decision\<close> is one of the three decision tokens, whose \<open>risk_level\<close> is one of the
  four risk tokens and which has a \<open>reasoning\<close>, the verdict is the enum member of each
  token and that reasoning. When the first balanced object is preceded by no opening brace
  and followed by no closing brace, it is the span that is parsed.
\<close>

theorem json_search_span:
  "((json_search t = Some s) =
      (\<exists>pre post. t = pre @ s @ post \<and> CHR ''{'' \<notin> set pre \<and> CHR ''}'' \<notin> set post
         \<and> s \<noteq> [] \<and> hd s = CHR ''{'' \<and> last s = CHR ''}''))
   \<and> (json_search t = Some s \<and> loads s = Inr (JObj d)
        \<and> map_of d ''decision'' = Some (JStr dn) \<and> map_of MergeDecision_names dn = Some dec
        \<and> map_of d ''risk_level'' = Some (JStr rn) \<and> map_of RiskLevel_names rn = Some rk
        \<and> map_of d ''reasoning'' = Some why \<longrightarrow>
        verdict_of_text loads context t = (dec, rk, why))
   \<and> map_of MergeDecision_names ''AUTO_MERGE'' = Some AUTO_MERGE
   \<and> map_of MergeDecision_names ''REQUIRE_APPROVAL'' = Some REQUIRE_APPROVAL
   \<and> map_of MergeDecision_names ''DO_NOT_MERGE'' = Some DO_NOT_MERGE
   \<and> map_of RiskLevel_names ''LOW'' = Some LOW
   \<and> map_of RiskLevel_names ''MEDIUM'' = Some MEDIUM
   \<and> map_of RiskLevel_names ''HIGH'' = Some HIGH
   \<and> map_of RiskLevel_names ''CRITICAL'' = Some CRITICAL
   \<and> (spec_first_balanced_object t' = Some s' \<and> t' = pre' @ s' @ post'
        \<and> CHR ''{'' \<notin> set pre' \<and> CHR ''}'' \<notin> set post' \<longrightarrow>
        json_search t' = Some s')"
proof -
  have "json_search t = Some s \<and> loads s = Inr (JObj d)
        \<and> map_of d ''decision'' = Some (JStr dn) \<and> map_of MergeDecision_names dn = Some dec
        \<and> map_of d ''risk_level'' = Some (JStr rn) \<and> map_of RiskLevel_names rn = Some rk
        \<and> map_of d ''reasoning'' = Some why \<longrightarrow>
        verdict_of_text loads context t = (dec, rk, why)"
  proof
    assume h: "json_search t = Some s \<and> loads s = Inr (JObj d)
        \<and> map_of d ''decision'' = Some (JStr dn) \<and> map_of MergeDecision_names dn = Some dec
        \<and> map_of d ''risk_level'' = Some (JStr rn) \<and> map_of RiskLevel_names rn = Some rk
        \<and> map_of d ''reasoning'' = Some why"
    then have "parse_verdict loads s = Inr (dec, rk, why)"
      unfolding parse_verdict_Inr_iff by blast
    with h show "verdict_of_text loads context t = (dec, rk, why)"
      by (simp add: verdict_of_text_def)
  qed
  moreover have "spec_first_balanced_object t' = Some s' \<and> t' = pre' @ s' @ post'
        \<and> CHR ''{'' \<notin> set pre' \<and> CHR ''}'' \<notin> set post' \<longrightarrow>
        json_search t' = Some s'"
    using spec_first_balanced_object_shape [of t' s'] json_search_SomeI [of pre' post' s']
    by blast
  moreover have "map_of MergeDecision_names ''AUTO_MERGE'' = Some AUTO_MERGE"
    "map_of MergeDecision_names ''REQUIRE_APPROVAL'' = Some REQUIRE_APPROVAL"
    "map_of MergeDecision_names ''DO_NOT_MERGE'' = Some DO_NOT_MERGE"
    "map_of RiskLevel_names ''LOW'' = Some LOW"
    "map_of RiskLevel_names ''MEDIUM'' = Some MEDIUM"
    "map_of RiskLevel_names ''HIGH'' = Some HIGH"
    "map_of RiskLevel_names ''CRITICAL'' = Some CRITICAL"
    by (simp_all add: MergeDecision_names_def RiskLevel_names_def)
  ultimately show ?thesis
    using json_search_Some_iff [of t s] by blast
qed

theorem json_search_span_witness:
  "json_search (''Decision: '' @ verdict_json_text @ '' Done.'') = Some verdict_json_text
   \<and> verdict_of_text stub_loads sample_pr_context (''Decision: '' @ verdict_json_text @ '' Done.'')
       = (AUTO_MERGE, LOW, JStr ''ok'')"
proof -
  note T = json_search_span
      [of "''Decision: '' @ verdict_json_text @ '' Done.''" verdict_json_text stub_loads
          "[(''decision'', JStr ''AUTO_MERGE''), (''risk_level'', JStr ''LOW''), (''reasoning'', JStr ''ok'')]"
          "''AUTO_MERGE''" AUTO_MERGE "''LOW''" LOW "JStr ''ok''" sample_pr_context
          "''Decision: '' @ verdict_json_text @ '' Done.''" verdict_json_text "''Decision: ''" "'' Done.''"]
  have f: "spec_first_balanced_object (''Decision: '' @ verdict_json_text @ '' Done.'') = Some verdict_json_text"
    by code_simp
  have a: "json_search (''Decision: '' @ verdict_json_text @ '' Done.'') = Some verdict_json_text"
    by (rule T [THEN conjunct2, THEN conjunct2, THEN conjunct2, THEN conjunct2, THEN conjunct2,
          THEN conjunct2, THEN conjunct2, THEN conjunct2, THEN conjunct2, THEN mp])
      (use f in simp)
  have b: "verdict_of_text stub_loads sample_pr_context (''Decision: '' @ verdict_json_text @ '' Done.'')
       = (AUTO_MERGE, LOW, JStr ''ok'')"
    by (rule T [THEN conjunct2, THEN conjunct1, THEN mp])
      (use a in \<open>simp add: stub_loads_def MergeDecision_names_def RiskLevel_names_def\<close>)
  show ?thesis
    by (intro conjI) (rule a b)+
qed






end
